theory Spec2Isabelle
  imports Complex_Main "HOL-Library.Sublist"
begin

section \<open>Values, exceptions and observable effects\<close>

text \<open>
  The two source files orchestrate external collaborators: the graph builder and the
  graph store, the inference service, the project service, the telemetry client and the
  file system. The embedding keeps the control flow of the source (every \<open>try\<close>,
  \<open>except\<close>, \<open>finally\<close>, \<open>raise\<close> and \<open>return\<close>) and makes the collaborators
  explicit: every external call records an event in a trace and then either returns or
  raises, as an environment says. Project identifiers are opaque strings, so that
  \<open>str(project_id)\<close> is the identifier itself.
\<close>

type_synonym project_id = string

datatype status = ERROR | PARSED | READY

text \<open>
  The exceptions that reach a handler of the source. All of them derive from Python's
  \<open>Exception\<close>, which is what \<open>except Exception\<close> catches.
\<close>

datatype exn =
    ParsingServiceError string
  | ParsingFailedError string
  | HTTPException nat string
  | ValueError string
  | KeyError string
  | TypeError string
  | UnboundLocalError string
  | OtherException string

text \<open>
  Modelled from the spec: the exception classes are declared in \<open>parsing_helper\<close>,
  which is not among the source files. The spec treats the typed parsing failure (empty
  graph after the retry, unsupported language) as the condition that the first handler of
  \<open>parse_directory\<close> reports, so \<open>ParsingFailedError\<close> is a \<open>ParsingServiceError\<close>.
\<close>

fun is_ParsingServiceError :: "exn \<Rightarrow> bool" where
  "is_ParsingServiceError (ParsingServiceError m) = True"
| "is_ParsingServiceError (ParsingFailedError m) = True"
| "is_ParsingServiceError e = False"

datatype node = Node string

datatype edge = Edge string string

text \<open>
  \<open>clone_or_copy_repository\<close> returns either a local git \<open>Repo\<close> or a remote repository
  object; \<open>parse_directory\<close> only tests which of the two it got.
\<close>

datatype repo = LocalRepo | RemoteRepo

datatype event =
    GetNeo4jConfig
  | NewCodeGraphService
  | CleanupGraph project_id
  | CloneOrCopyRepository string
  | SetupProjectDirectory project_id
  | DetectRepoLanguage string
  | GetLanguages
  | NewNeo4jManager project_id string
  | CreateEntityIdIndex
  | CreateNodeIdIndex
  | NewGraphConstructor string
  | BuildGraph string
  | CreateNodes "node list"
  | CreateEdges "edge list"
  | UpdateProjectStatus project_id status
  | SendEvent string project_id string
  | RunInference project_id
  | LogGraphStats project_id
  | CloseGraphManager
  | CreateAndStoreGraph string project_id string
  | CloseService
  | Rmtree string
  | GetProjectRepoDetails string string
  | NewInferenceService
  | QueryVectorIndex string string "string list"

text \<open>
  The state of one call: the trace of external calls in the order they were made, the
  status writes that returned normally (what the project store holds, last one last), and
  the two local variables of \<open>parse_directory\<close> that its handlers and its \<open>finally\<close>
  block read after the body may have rebound them.
\<close>

record rstate =
  trace :: "event list"
  writes :: "(project_id \<times> status) list"
  v_extracted_dir :: "string option"
  v_project_id :: project_id

text \<open>
  The environment of one ingestion run. A call site of the source runs at most once per
  run (there is no loop), so the outcome of an external call is given per call site:
  \<open>raises env l\<close> is the exception raised by the external call on source line \<open>l\<close> of
  \<open>parsing_service.py\<close>, or \<open>None\<close> when that call returns. Calls that return a value
  have an outcome of their own. \<open>http_str\<close> is \<open>str\<close> of an \<open>HTTPException\<close> and
  \<open>format_exception\<close> the text of \<open>traceback.format_exception\<close>, both library
  behaviour.
\<close>

record env =
  raises :: "nat \<Rightarrow> exn option"
  out_clone_or_copy_repository :: "exn + repo"
  out_setup_project_directory :: "exn + string \<times> project_id"
  out_detect_repo_language :: "exn + string"
  out_get_languages :: "exn + (string \<times> int) list"
  out_build_graph :: "nat \<Rightarrow> exn + node list \<times> edge list"
  path_exists :: "string \<Rightarrow> bool"
  getenv_PROJECT_PATH :: "string option"
  http_str :: "nat \<Rightarrow> string \<Rightarrow> string"
  format_exception :: "exn \<Rightarrow> string"

text \<open>\<open>str(e)\<close>, given \<open>str\<close> of an \<open>HTTPException\<close>.\<close>

fun str_exn :: "(nat \<Rightarrow> string \<Rightarrow> string) \<Rightarrow> exn \<Rightarrow> string" where
  "str_exn h (ParsingServiceError m) = m"
| "str_exn h (ParsingFailedError m) = m"
| "str_exn h (HTTPException c d) = h c d"
| "str_exn h (ValueError m) = m"
| "str_exn h (KeyError k) = [CHR 0x27] @ k @ [CHR 0x27]"
| "str_exn h (TypeError m) = m"
| "str_exn h (UnboundLocalError m) = m"
| "str_exn h (OtherException m) = m"

section \<open>Computations that may raise\<close>

type_synonym 'a comp = "rstate \<Rightarrow> (exn + 'a) \<times> rstate"

definition ret :: "'a \<Rightarrow> 'a comp" where
  "ret v = (\<lambda>s. (Inr v, s))"

definition raise_exn :: "exn \<Rightarrow> 'a comp" where
  "raise_exn e = (\<lambda>s. (Inl e, s))"

definition then_do :: "'a comp \<Rightarrow> ('a \<Rightarrow> 'b comp) \<Rightarrow> 'b comp" where
  "then_do m f = (\<lambda>s. case m s of (Inl e, s') \<Rightarrow> (Inl e, s') | (Inr v, s') \<Rightarrow> f v s')"

fun block :: "unit comp list \<Rightarrow> unit comp" where
  "block [] = ret ()"
| "block (m # ms) = then_do m (\<lambda>_. block ms)"

text \<open>\<open>try: m except Exception as e: h e\<close>\<close>

definition try_except :: "'a comp \<Rightarrow> (exn \<Rightarrow> 'a comp) \<Rightarrow> 'a comp" where
  "try_except m h = (\<lambda>s. case m s of (Inl e, s') \<Rightarrow> h e s' | (Inr v, s') \<Rightarrow> (Inr v, s'))"

text \<open>
  \<open>try: m finally: fin\<close>. The \<open>finally\<close> block runs on every exit of \<open>m\<close>; an exception
  it raises replaces the result of \<open>m\<close>, otherwise the result of \<open>m\<close> stands.
\<close>

definition try_finally :: "'a comp \<Rightarrow> unit comp \<Rightarrow> 'a comp" where
  "try_finally m fin = (\<lambda>s. case m s of (r, s') \<Rightarrow>
     (case fin s' of (Inl e, s'') \<Rightarrow> (Inl e, s'') | (Inr u, s'') \<Rightarrow> (r, s'')))"

definition record_event :: "event \<Rightarrow> unit comp" where
  "record_event ev = (\<lambda>s. (Inr (), s\<lparr>trace := trace s @ [ev]\<rparr>))"

text \<open>An external call on line \<open>l\<close> that returns nothing.\<close>

definition ext :: "env \<Rightarrow> nat \<Rightarrow> event \<Rightarrow> unit comp" where
  "ext env l ev = then_do (record_event ev)
     (\<lambda>_. case raises env l of Some e \<Rightarrow> raise_exn e | None \<Rightarrow> ret ())"

text \<open>An external call with the given outcome.\<close>

definition ext_val :: "event \<Rightarrow> exn + 'a \<Rightarrow> 'a comp" where
  "ext_val ev out = then_do (record_event ev)
     (\<lambda>_. case out of Inl e \<Rightarrow> raise_exn e | Inr v \<Rightarrow> ret v)"

text \<open>
  \<open>ProjectService.update_project_status\<close>: the write is held by the store when the call
  returns.
\<close>

definition update_project_status :: "env \<Rightarrow> nat \<Rightarrow> project_id \<Rightarrow> status \<Rightarrow> unit comp" where
  "update_project_status env l pid st = then_do (ext env l (UpdateProjectStatus pid st))
     (\<lambda>_ s. (Inr (), s\<lparr>writes := writes s @ [(pid, st)]\<rparr>))"

section \<open>ParsingService\<close>

subsection \<open>analyze_directory\<close>

definition create_neo4j_indices :: "env \<Rightarrow> unit comp" where
  "create_neo4j_indices env = block [ext env 123 CreateEntityIdIndex, ext env 124 CreateNodeIdIndex]"

definition build_graph :: "env \<Rightarrow> nat \<Rightarrow> string \<Rightarrow> (node list \<times> edge list) comp" where
  "build_graph env l extracted_dir = ext_val (BuildGraph extracted_dir) (out_build_graph env l)"

text \<open>Lines 144 to 174: the body of the \<open>try\<close> of the graph-native branch.\<close>

definition native_try :: "env \<Rightarrow> string \<Rightarrow> project_id \<Rightarrow> string \<Rightarrow> unit comp" where
  "native_try env extracted_dir project_id user_id =
     then_do (ext env 144 (NewGraphConstructor user_id)) (\<lambda>_.
     then_do (build_graph env 145 extracted_dir) (\<lambda>(n, r).
     then_do (if length n = 0 then
                then_do (build_graph env 147 extracted_dir) (\<lambda>(n, r).
                  if length n = 0 then
                    raise_exn (ParsingFailedError
                      (''Project: '' @ project_id @ '' Failed to build graph''))
                  else ret (n, r))
              else ret (n, r)) (\<lambda>(n, r).
     block [
       ext env 151 (CreateNodes n),
       ext env 152 (CreateEdges r),
       update_project_status env 154 project_id PARSED,
       ext env 157 (SendEvent user_id project_id ''Parsed''),
       ext env 164 (RunInference project_id),
       ext env 166 (LogGraphStats project_id),
       update_project_status env 167 project_id READY,
       ext env 170 (SendEvent user_id project_id ''Ready'')])))"

text \<open>Lines 175 to 185: the handler of the graph-native branch. It does not re-raise.\<close>

definition native_except :: "env \<Rightarrow> project_id \<Rightarrow> string \<Rightarrow> exn \<Rightarrow> unit comp" where
  "native_except env project_id user_id e =
     block [
       update_project_status env 178 project_id ERROR,
       ext env 181 (SendEvent user_id project_id ''Error'')]"

text \<open>Lines 189 to 211: the body of the \<open>try\<close> of the generic branch, which has no handler.\<close>

definition generic_try :: "env \<Rightarrow> string \<Rightarrow> project_id \<Rightarrow> string \<Rightarrow> unit comp" where
  "generic_try env extracted_dir project_id user_id =
     block [
       ext env 190 GetNeo4jConfig,
       ext env 191 NewCodeGraphService,
       ext env 198 (CreateAndStoreGraph extracted_dir project_id user_id),
       update_project_status env 200 project_id PARSED,
       ext env 204 (RunInference project_id),
       ext env 206 (LogGraphStats project_id),
       update_project_status env 207 project_id READY,
       ext env 211 (LogGraphStats project_id)]"

text \<open>
  Lines 212 to 215. The local \<open>service\<close> is bound when lines 190 and 191 have returned;
  otherwise \<open>service.close()\<close> raises \<open>UnboundLocalError\<close>.
\<close>

definition generic_finally :: "env \<Rightarrow> project_id \<Rightarrow> unit comp" where
  "generic_finally env project_id =
     block [
       (if raises env 190 = None \<and> raises env 191 = None then ext env 213 CloseService
        else raise_exn (UnboundLocalError ''service'')),
       ext env 215 (LogGraphStats project_id)]"

definition analyze_directory :: "env \<Rightarrow> string \<Rightarrow> project_id \<Rightarrow> string \<Rightarrow> string \<Rightarrow> unit comp" where
  "analyze_directory env extracted_dir project_id user_id language =
     (if language \<in> set [''python'', ''javascript'', ''typescript''] then
        block [
          ext env 140 (NewNeo4jManager project_id user_id),
          create_neo4j_indices env,
          try_finally
            (try_except (native_try env extracted_dir project_id user_id)
               (native_except env project_id user_id))
            (ext env 187 CloseGraphManager)]
      else if language \<noteq> ''other'' then
        try_finally (generic_try env extracted_dir project_id user_id)
          (generic_finally env project_id)
      else
        block [
          update_project_status env 217 project_id ERROR,
          ext env 221 (LogGraphStats project_id),
          raise_exn (ParsingFailedError
            ''Repository doesn't consist of a language currently supported.'')])"

subsection \<open>parse_directory\<close>

text \<open>
  Modelled from the spec: \<open>ParsingRequest\<close> is declared in \<open>parsing_schema\<close>, which is
  not among the source files; it carries the repository reference and the branch name.
\<close>

record parsing_request =
  repo_name :: string
  branch_name :: string

text \<open>Lines 62 to 76: the optional deletion of the project's stale graph.\<close>

definition cleanup_graph_step :: "env \<Rightarrow> project_id \<Rightarrow> unit comp" where
  "cleanup_graph_step env project_id =
     then_do (ext env 63 GetNeo4jConfig) (\<lambda>_.
     try_except
       (block [ext env 66 NewCodeGraphService, ext env 73 (CleanupGraph project_id)])
       (\<lambda>e. raise_exn (HTTPException 500 ''Internal server error'')))"

text \<open>
  \<open>max(languages, key=languages.get)\<close>: the first key, in the order of the dictionary,
  whose value is largest; \<open>ValueError\<close> on an empty dictionary.
\<close>

fun py_max_key :: "(string \<times> int) list \<Rightarrow> string option" where
  "py_max_key [] = None"
| "py_max_key (x # xs) =
     Some (fst (fold (\<lambda>y best. if snd best < snd y then y else best) xs x))"

text \<open>\<open>str.lower\<close> on the ASCII letters.\<close>

definition lower_char :: "char \<Rightarrow> char" where
  "lower_char c = (let n = (of_char c :: nat) in
     if 65 \<le> n \<and> n \<le> 90 then char_of (n + 32) else c)"

definition lower :: "string \<Rightarrow> string" where
  "lower s = map lower_char s"

text \<open>Lines 85 to 89.\<close>

definition detect_language :: "env \<Rightarrow> repo \<Rightarrow> string \<Rightarrow> string comp" where
  "detect_language env repo extracted_dir =
     (case repo of
        LocalRepo \<Rightarrow> ext_val (DetectRepoLanguage extracted_dir) (out_detect_repo_language env)
      | RemoteRepo \<Rightarrow>
          then_do (ext_val GetLanguages (out_get_languages env)) (\<lambda>languages.
            case py_max_key languages of
              None \<Rightarrow> raise_exn (ValueError ''max() arg is an empty sequence'')
            | Some k \<Rightarrow> ret (lower k)))"

text \<open>
  Lines 62 to 95: the body of the \<open>try\<close>. Line 81 rebinds the locals \<open>extracted_dir\<close> and
  \<open>project_id\<close>, which the handlers and the \<open>finally\<close> block read. The returned dictionary
  \<open>{"message": message, "id": project_id}\<close> is the pair of its two values.
\<close>

definition parse_directory_try ::
  "env \<Rightarrow> parsing_request \<Rightarrow> string \<Rightarrow> project_id \<Rightarrow> bool \<Rightarrow> (string \<times> project_id) comp" where
  "parse_directory_try env repo_details user_id project_id cleanup_graph =
     then_do (if cleanup_graph then cleanup_graph_step env project_id else ret ()) (\<lambda>_.
     then_do (ext_val (CloneOrCopyRepository user_id) (out_clone_or_copy_repository env)) (\<lambda>repo.
     then_do (ext_val (SetupProjectDirectory project_id) (out_setup_project_directory env))
       (\<lambda>(extracted_dir, project_id).
     then_do (\<lambda>s. (Inr (), s\<lparr>v_extracted_dir := Some extracted_dir, v_project_id := project_id\<rparr>)) (\<lambda>_.
     then_do (detect_language env repo extracted_dir) (\<lambda>language.
     then_do (analyze_directory env extracted_dir project_id user_id language) (\<lambda>_.
     ret (''The project has been parsed successfully'', project_id)))))))"

text \<open>Lines 97 to 111: the two handlers, chosen by the class of the exception.\<close>

definition parse_directory_except :: "env \<Rightarrow> exn \<Rightarrow> (string \<times> project_id) comp" where
  "parse_directory_except env e = (\<lambda>s.
     (if is_ParsingServiceError e then
        then_do (update_project_status env 99 (v_project_id s) ERROR) (\<lambda>_.
          raise_exn (HTTPException 500
            (v_project_id s @ '' Failed during parsing: '' @ str_exn (http_str env) e)))
      else
        then_do (update_project_status env 105 (v_project_id s) ERROR) (\<lambda>_.
          raise_exn (HTTPException 500
            (str_exn (http_str env) e @ [CHR 0x0A] @ ''Traceback: '' @ format_exception env e)))) s)"

text \<open>
  Lines 113 to 119. \<open>str.startswith\<close> is the prefix test on strings and raises
  \<open>TypeError\<close> when \<open>PROJECT_PATH\<close> is not set; \<open>shutil.rmtree\<close> with
  \<open>ignore_errors=True\<close> does not raise.
\<close>

definition parse_directory_finally :: "env \<Rightarrow> unit comp" where
  "parse_directory_finally env = (\<lambda>s.
     (case v_extracted_dir s of
        None \<Rightarrow> ret ()
      | Some d \<Rightarrow>
          if d = [] then ret ()
          else if \<not> path_exists env d then ret ()
          else (case getenv_PROJECT_PATH env of
                  None \<Rightarrow> raise_exn (TypeError
                    ''startswith first arg must be str or a tuple of str, not NoneType'')
                | Some project_path \<Rightarrow> if prefix project_path d then record_event (Rmtree d) else ret ())) s)"

definition parse_directory ::
  "env \<Rightarrow> parsing_request \<Rightarrow> string \<Rightarrow> string \<Rightarrow> project_id \<Rightarrow> bool \<Rightarrow> (string \<times> project_id) comp" where
  "parse_directory env repo_details user_id user_email project_id cleanup_graph = (\<lambda>s.
     try_finally
       (try_except (parse_directory_try env repo_details user_id project_id cleanup_graph)
          (parse_directory_except env))
       (parse_directory_finally env)
       (s\<lparr>v_extracted_dir := None, v_project_id := project_id\<rparr>))"

text \<open>The state in which a call starts: nothing called, nothing written.\<close>

definition start :: rstate where
  "start = \<lparr>trace = [], writes = [], v_extracted_dir = None, v_project_id = []\<rparr>"

section \<open>KnowledgeGraphQueryTool\<close>

text \<open>
  Python values as far as a raw match of the vector index holds them. A float is taken as
  a real number: the source only tests whether it is zero.
\<close>

datatype pyval = VNone | VBool bool | VInt int | VFloat real | VStr string

fun truthy :: "pyval \<Rightarrow> bool" where
  "truthy VNone = False"
| "truthy (VBool b) = b"
| "truthy (VInt i) = (i \<noteq> 0)"
| "truthy (VFloat x) = (x \<noteq> 0)"
| "truthy (VStr s) = (s \<noteq> [])"

text \<open>\<open>a or b\<close>\<close>

definition py_or :: "pyval \<Rightarrow> pyval \<Rightarrow> pyval" where
  "py_or a b = (if truthy a then a else b)"

text \<open>A dictionary with string keys, and \<open>d.get(k)\<close>, which is \<open>None\<close> for a missing key.\<close>

type_synonym raw_match = "(string \<times> pyval) list"

definition py_get :: "raw_match \<Rightarrow> string \<Rightarrow> pyval" where
  "py_get d k = (case map_of d k of None \<Rightarrow> VNone | Some v \<Rightarrow> v)"

record query_request =
  req_node_ids :: "string list"
  req_project_id :: string
  req_query :: string

text \<open>
  Modelled from the spec: \<open>QueryResponse\<close> is declared in \<open>inference_schema\<close>, which is
  not among the source files; it is the record of the six fields of a query result and
  holds the values it is given.
\<close>

record query_response =
  node_id :: pyval
  docstring :: pyval
  file_path :: pyval
  start_line :: pyval
  end_line :: pyval
  similarity :: pyval

text \<open>What \<open>run\<close> returns: the results of the batch, or the dictionary \<open>{"error": message}\<close>.\<close>

datatype payload = Results "query_response list list" | ErrorPayload string

text \<open>
  The environment of one batch. \<open>out_query_vector_index env i\<close> is the outcome of the
  call made for the \<open>i\<close>-th question of the batch.
\<close>

record query_env =
  out_get_project_repo_details_from_db :: "string \<Rightarrow> string \<Rightarrow> exn + (string \<times> string) list option"
  out_InferenceService :: "exn + unit"
  out_query_vector_index :: "nat \<Rightarrow> string \<Rightarrow> string \<Rightarrow> string list \<Rightarrow> exn + raw_match list"
  q_http_str :: "nat \<Rightarrow> string \<Rightarrow> string"

text \<open>Lines 60 to 67: one raw match becomes one \<open>QueryResponse\<close>.\<close>

definition to_query_response :: "raw_match \<Rightarrow> query_response" where
  "to_query_response result =
     \<lparr>node_id = py_get result ''node_id'',
      docstring = py_get result ''docstring'',
      file_path = py_get result ''file_path'',
      start_line = py_or (py_get result ''start_line'') (VInt 0),
      end_line = py_or (py_get result ''end_line'') (VInt 0),
      similarity = py_or (py_get result ''similarity'') (VInt 0)\<rparr>"

text \<open>Lines 54 to 69.\<close>

definition process_query :: "query_env \<Rightarrow> nat \<Rightarrow> query_request \<Rightarrow> query_response list comp" where
  "process_query env i query_request =
     then_do
       (ext_val
          (QueryVectorIndex (req_project_id query_request) (req_query query_request)
             (req_node_ids query_request))
          (out_query_vector_index env i (req_project_id query_request) (req_query query_request)
             (req_node_ids query_request)))
       (\<lambda>results. ret (map to_query_response results))"

text \<open>
  \<open>asyncio.gather\<close> over coroutines that never suspend (\<open>process_query\<close> awaits
  nothing): the event loop runs each of them to its end in the order of the list, also
  after one of them has raised, and the caller gets the first exception, or else the
  results in the order of the list.
\<close>

fun gather :: "'a comp list \<Rightarrow> 'a list comp" where
  "gather [] = ret []"
| "gather (m # ms) = (\<lambda>s. case m s of (r, s') \<Rightarrow>
     (case gather ms s' of (rs, s'') \<Rightarrow>
        (case r of
           Inl e \<Rightarrow> (Inl e, s'')
         | Inr v \<Rightarrow> (case rs of Inl e \<Rightarrow> (Inl e, s'') | Inr vs \<Rightarrow> (Inr (v # vs), s'')))))"

text \<open>Lines 49 to 74.\<close>

definition ask_multiple_knowledge_graph_queries ::
  "query_env \<Rightarrow> query_request list \<Rightarrow> query_response list list comp" where
  "ask_multiple_knowledge_graph_queries env queries =
     then_do (ext_val NewInferenceService (out_InferenceService env)) (\<lambda>_.
       gather (map (\<lambda>(i, q). process_query env i q) (enumerate 0 queries)))"

text \<open>
  Lines 105 to 118. The project is a dictionary or \<open>None\<close>; \<open>not project\<close> holds for
  \<open>None\<close> and for the empty dictionary.
\<close>

definition ask_knowledge_graph_query ::
  "query_env \<Rightarrow> string \<Rightarrow> string list \<Rightarrow> string \<Rightarrow> string list \<Rightarrow> query_response list list comp" where
  "ask_knowledge_graph_query env user_id queries project_id node_ids =
     then_do
       (ext_val (GetProjectRepoDetails project_id user_id)
          (out_get_project_repo_details_from_db env project_id user_id))
       (\<lambda>project.
          if project = None \<or> project = Some [] then
            raise_exn (ValueError
              (''Project with ID '' @ [CHR 0x27] @ project_id @ [CHR 0x27]
                 @ '' not found in database for user '' @ [CHR 0x27] @ user_id @ [CHR 0x27]))
          else
            (case map_of (case project of None \<Rightarrow> [] | Some d \<Rightarrow> d) ''id'' of
               None \<Rightarrow> raise_exn (KeyError ''id'')
             | Some project_id \<Rightarrow>
                 ask_multiple_knowledge_graph_queries env
                   (map (\<lambda>q. \<lparr>req_node_ids = node_ids, req_project_id = project_id, req_query = q\<rparr>)
                      queries)))"

text \<open>Lines 120 to 128.\<close>

definition run :: "query_env \<Rightarrow> string \<Rightarrow> string list \<Rightarrow> string \<Rightarrow> string list \<Rightarrow> payload comp" where
  "run env user_id queries repo_id node_ids =
     try_except
       (then_do (ask_knowledge_graph_query env user_id queries repo_id node_ids)
          (\<lambda>results. ret (Results results)))
       (\<lambda>e. ret (ErrorPayload (''An unexpected error occurred: '' @ str_exn (q_http_str env) e)))"

section \<open>Observations on traces\<close>

text \<open>
  Predicates on events and the expected traces that the theorems below are stated with,
  and the concrete environments at which they are instantiated.
\<close>

definition is_resolution :: "event \<Rightarrow> bool" where
  "is_resolution ev = (case ev of GetProjectRepoDetails r u \<Rightarrow> True | _ \<Rightarrow> False)"

definition is_dispatch :: "event \<Rightarrow> bool" where
  "is_dispatch ev = (case ev of QueryVectorIndex p q n \<Rightarrow> True | _ \<Rightarrow> False)"

text \<open>
  The external calls that \<open>ask_knowledge_graph_query\<close> makes after it has resolved the
  project.
\<close>

definition dispatched :: "query_env \<Rightarrow> string \<Rightarrow> string list \<Rightarrow> string \<Rightarrow> string list \<Rightarrow> event list" where
  "dispatched env user_id queries repo_id node_ids =
     (case out_get_project_repo_details_from_db env repo_id user_id of
        Inl e \<Rightarrow> []
      | Inr None \<Rightarrow> []
      | Inr (Some d) \<Rightarrow>
          if d = [] then []
          else (case map_of d ''id'' of
                  None \<Rightarrow> []
                | Some pid \<Rightarrow>
                    NewInferenceService #
                      (case out_InferenceService env of
                         Inl e \<Rightarrow> []
                       | Inr u \<Rightarrow> map (\<lambda>q. QueryVectorIndex pid q node_ids) queries)))"

definition not_found_message :: "string \<Rightarrow> string \<Rightarrow> string" where
  "not_found_message project_id user_id =
     ''Project with ID '' @ [CHR 0x27] @ project_id @ [CHR 0x27]
       @ '' not found in database for user '' @ [CHR 0x27] @ user_id @ [CHR 0x27]"

text \<open>
  A batch environment: the reference \<open>my-repo\<close> resolves to the project \<open>P1\<close>, any
  other reference is not found, and the vector index fails on the second question.
\<close>

definition example_query_env :: query_env where
  "example_query_env =
     \<lparr>out_get_project_repo_details_from_db =
        (\<lambda>r u. if r = ''my-repo'' then Inr (Some [(''id'', ''P1'')]) else Inr None),
      out_InferenceService = Inr (),
      out_query_vector_index =
        (\<lambda>i p q n. if i = 1 then Inl (OtherException ''index unavailable'')
           else Inr [[(''node_id'', VStr ''n1''), (''docstring'', VStr []),
                      (''similarity'', VFloat (1 / 2))]]),
      q_http_str = (\<lambda>c d. d)\<rparr>"

section \<open>Lemmas about the query tool\<close>

lemmas comp_defs = ret_def raise_exn_def then_do_def try_except_def try_finally_def
  record_event_def ext_def ext_val_def update_project_status_def

lemma process_query_fst:
  "fst (process_query env i rq s) =
     (case out_query_vector_index env i (req_project_id rq) (req_query rq) (req_node_ids rq) of
        Inl e \<Rightarrow> Inl e | Inr results \<Rightarrow> Inr (map to_query_response results))"
  by (simp add: process_query_def comp_defs split: sum.splits)

lemma process_query_snd:
  "snd (process_query env i rq s) =
     s\<lparr>trace := trace s @ [QueryVectorIndex (req_project_id rq) (req_query rq) (req_node_ids rq)]\<rparr>"
  by (simp add: process_query_def comp_defs split: sum.splits)

lemma gather_trace:
  "snd (gather (map (\<lambda>(i, q). process_query env i q) xs) s) =
     s\<lparr>trace := trace s @ map (\<lambda>(i, q). QueryVectorIndex (req_project_id q) (req_query q) (req_node_ids q)) xs\<rparr>"
proof (induction xs arbitrary: s)
  case Nil
  then show ?case by (simp add: ret_def)
next
  case (Cons x xs)
  obtain i q where x: "x = (i, q)" by (cases x)
  obtain r s1 where m: "process_query env i q s = (r, s1)" by (cases "process_query env i q s")
  have s1: "s1 = s\<lparr>trace := trace s @ [QueryVectorIndex (req_project_id q) (req_query q) (req_node_ids q)]\<rparr>"
    using process_query_snd [of env i q s] m by simp
  obtain rs s2 where g: "gather (map (\<lambda>(i, q). process_query env i q) xs) s1 = (rs, s2)"
    by (cases "gather (map (\<lambda>(i, q). process_query env i q) xs) s1")
  have s2: "s2 = s1\<lparr>trace := trace s1 @ map (\<lambda>(i, q). QueryVectorIndex (req_project_id q) (req_query q) (req_node_ids q)) xs\<rparr>"
    using Cons.IH [of s1] g by simp
  have "snd (gather (map (\<lambda>(i, q). process_query env i q) (x # xs)) s) = s2"
    by (simp add: x m g split: sum.splits)
  then show ?case
    by (simp add: s2 s1 x)
qed


lemma map_enumerate_requests:
  "map (\<lambda>(i, q). QueryVectorIndex (req_project_id q) (req_query q) (req_node_ids q))
     (enumerate k (map (\<lambda>q. \<lparr>req_node_ids = n, req_project_id = p, req_query = q\<rparr>) qs)) =
   map (\<lambda>q. QueryVectorIndex p q n) qs"
  by (induction qs arbitrary: k) simp_all

lemma ask_multiple_trace:
  "trace (snd (ask_multiple_knowledge_graph_queries env
       (map (\<lambda>q. \<lparr>req_node_ids = n, req_project_id = p, req_query = q\<rparr>) qs) s)) =
     trace s @ NewInferenceService #
       (case out_InferenceService env of Inl e \<Rightarrow> [] | Inr u \<Rightarrow> map (\<lambda>q. QueryVectorIndex p q n) qs)"
  by (simp add: ask_multiple_knowledge_graph_queries_def comp_defs gather_trace
      map_enumerate_requests split: sum.splits)

lemma ask_trace:
  "trace (snd (ask_knowledge_graph_query env user_id queries repo_id node_ids s)) =
     trace s @ GetProjectRepoDetails repo_id user_id # dispatched env user_id queries repo_id node_ids"
proof -
  let ?s1 = "s\<lparr>trace := trace s @ [GetProjectRepoDetails repo_id user_id]\<rparr>"
  show ?thesis
  proof (cases "out_get_project_repo_details_from_db env repo_id user_id")
    case (Inl e)
    then show ?thesis
      by (simp add: ask_knowledge_graph_query_def dispatched_def comp_defs)
  next
    case (Inr project)
    show ?thesis
    proof (cases project)
      case None
      then show ?thesis using Inr
        by (simp add: ask_knowledge_graph_query_def dispatched_def comp_defs)
    next
      case (Some d)
      show ?thesis
      proof (cases "map_of d ''id''")
        case None
        then show ?thesis using Inr Some
          by (simp add: ask_knowledge_graph_query_def dispatched_def comp_defs)
      next
        case (Some pid)
        have "d \<noteq> []" using Some by auto
        then show ?thesis using Inr \<open>project = Some d\<close> Some
          ask_multiple_trace [of env node_ids pid queries ?s1]
          by (simp add: ask_knowledge_graph_query_def dispatched_def ret_def raise_exn_def
              then_do_def record_event_def ext_val_def)
      qed
    qed
  qed
qed

lemma run_trace:
  "trace (snd (run env user_id queries repo_id node_ids s)) =
     trace s @ GetProjectRepoDetails repo_id user_id # dispatched env user_id queries repo_id node_ids"
proof -
  have "snd (run env user_id queries repo_id node_ids s) =
      snd (ask_knowledge_graph_query env user_id queries repo_id node_ids s)"
    by (simp add: run_def ret_def then_do_def try_except_def split: prod.splits sum.splits)
  then show ?thesis by (simp add: ask_trace)
qed

lemma dispatched_no_resolution:
  "filter is_resolution (dispatched env user_id queries repo_id node_ids) = []"
  by (auto simp: dispatched_def is_resolution_def filter_empty_conv
      split: sum.splits option.splits)

lemma run_value:
  "fst (run env user_id queries repo_id node_ids s) =
     (case fst (ask_knowledge_graph_query env user_id queries repo_id node_ids s) of
        Inl e \<Rightarrow> Inr (ErrorPayload (''An unexpected error occurred: '' @ str_exn (q_http_str env) e))
      | Inr results \<Rightarrow> Inr (Results results))"
  by (simp add: run_def ret_def then_do_def try_except_def split: prod.splits sum.splits)

lemma ask_not_found:
  assumes "out_get_project_repo_details_from_db env repo_id user_id = Inr None
     \<or> out_get_project_repo_details_from_db env repo_id user_id = Inr (Some [])"
  shows "fst (ask_knowledge_graph_query env user_id queries repo_id node_ids s) =
     Inl (ValueError (not_found_message repo_id user_id))"
  using assms by (auto simp: ask_knowledge_graph_query_def not_found_message_def comp_defs)


section \<open>The claims\<close>



text \<open>
  C8. For every batch of questions, the project reference is resolved exactly once per
  call of \<open>run\<close>, whatever the number of questions; the resolution is the first external
  call, so every query of the vector index comes after it; and when the project is not
  found the batch fails with the not-found message before any query is dispatched.
\<close>

theorem C8_single_resolution:
  "length (filter is_resolution (trace (snd (run env user_id queries repo_id node_ids start)))) = 1 \<and>
   (\<exists>rest. trace (snd (run env user_id queries repo_id node_ids start)) =
      GetProjectRepoDetails repo_id user_id # rest) \<and>
   (\<forall>pre ev post.
      trace (snd (run env user_id queries repo_id node_ids start)) = pre @ ev # post \<and>
      is_dispatch ev \<longrightarrow> (\<exists>x \<in> set pre. is_resolution x)) \<and>
   (out_get_project_repo_details_from_db env repo_id user_id = Inr None \<or>
    out_get_project_repo_details_from_db env repo_id user_id = Inr (Some []) \<longrightarrow>
      filter is_dispatch (trace (snd (run env user_id queries repo_id node_ids start))) = [] \<and>
      fst (run env user_id queries repo_id node_ids start) =
        Inr (ErrorPayload (''An unexpected error occurred: '' @ not_found_message repo_id user_id)))"
proof -
  let ?tr = "trace (snd (run env user_id queries repo_id node_ids start))"
  let ?rest = "dispatched env user_id queries repo_id node_ids"
  have tr: "?tr = GetProjectRepoDetails repo_id user_id # ?rest"
    by (simp add: run_trace start_def)
  have once: "length (filter is_resolution ?tr) = 1"
    by (simp add: tr dispatched_no_resolution) (simp add: is_resolution_def)
  have first: "\<exists>rest. ?tr = GetProjectRepoDetails repo_id user_id # rest"
    using tr by blast
  have before: "\<exists>x \<in> set pre. is_resolution x"
    if "?tr = pre @ ev # post \<and> is_dispatch ev" for pre ev post
  proof (cases pre)
    case Nil
    then have "ev = GetProjectRepoDetails repo_id user_id" using that tr by simp
    then show ?thesis using that by (simp add: is_dispatch_def)
  next
    case (Cons x xs)
    then have "x = GetProjectRepoDetails repo_id user_id" using that tr by simp
    then show ?thesis using Cons by (simp add: is_resolution_def)
  qed
  have missing: "filter is_dispatch ?tr = [] \<and>
      fst (run env user_id queries repo_id node_ids start) =
        Inr (ErrorPayload (''An unexpected error occurred: '' @ not_found_message repo_id user_id))"
    if nf: "out_get_project_repo_details_from_db env repo_id user_id = Inr None \<or>
      out_get_project_repo_details_from_db env repo_id user_id = Inr (Some [])"
  proof -
    have "?rest = []" using nf by (auto simp: dispatched_def)
    then have "filter is_dispatch ?tr = []" by (simp add: tr is_dispatch_def)
    moreover have "fst (ask_knowledge_graph_query env user_id queries repo_id node_ids start) =
        Inl (ValueError (not_found_message repo_id user_id))"
      using nf by (rule ask_not_found)
    ultimately show ?thesis by (simp add: run_value)
  qed
  show ?thesis using once first before missing by blast
qed

theorem C8_single_resolution_witness:
  "trace (snd (run example_query_env ''u1'' [''q1'', ''q2''] ''my-repo'' [''n1''] start)) =
     [GetProjectRepoDetails ''my-repo'' ''u1'', NewInferenceService] @
       QueryVectorIndex ''P1'' ''q1'' [''n1''] # [QueryVectorIndex ''P1'' ''q2'' [''n1'']] \<and>
   is_dispatch (QueryVectorIndex ''P1'' ''q1'' [''n1'']) \<and>
   (\<exists>x \<in> set [GetProjectRepoDetails ''my-repo'' ''u1'', NewInferenceService]. is_resolution x) \<and>
   length (filter is_resolution
     (trace (snd (run example_query_env ''u1'' [''q1'', ''q2''] ''my-repo'' [''n1''] start)))) = 1 \<and>
   out_get_project_repo_details_from_db example_query_env ''other-repo'' ''u1'' = Inr None \<and>
   filter is_dispatch
     (trace (snd (run example_query_env ''u1'' [''q1'', ''q2''] ''other-repo'' [] start))) = [] \<and>
   fst (run example_query_env ''u1'' [''q1'', ''q2''] ''other-repo'' [] start) =
     Inr (ErrorPayload (''An unexpected error occurred: '' @ not_found_message ''other-repo'' ''u1''))"
proof -
  let ?pre = "[GetProjectRepoDetails ''my-repo'' ''u1'', NewInferenceService]"
  let ?ev = "QueryVectorIndex ''P1'' ''q1'' [''n1'']"
  let ?post = "[QueryVectorIndex ''P1'' ''q2'' [''n1'']]"
  have tr: "trace (snd (run example_query_env ''u1'' [''q1'', ''q2''] ''my-repo'' [''n1''] start)) =
      ?pre @ ?ev # ?post"
    by (simp add: run_trace dispatched_def example_query_env_def start_def)
  have ev: "is_dispatch ?ev"
    by (simp add: is_dispatch_def)
  have nf: "out_get_project_repo_details_from_db example_query_env ''other-repo'' ''u1'' = Inr None"
    by (simp add: example_query_env_def)
  note found = C8_single_resolution
    [of example_query_env "''u1''" "[''q1'', ''q2'']" "''my-repo''" "[''n1'']"]
  note missing = C8_single_resolution
    [of example_query_env "''u1''" "[''q1'', ''q2'']" "''other-repo''" "[]"]
  have a: "\<exists>x \<in> set ?pre. is_resolution x"
    using found tr ev by blast
  have b: "length (filter is_resolution
      (trace (snd (run example_query_env ''u1'' [''q1'', ''q2''] ''my-repo'' [''n1''] start)))) = 1"
    using found by blast
  have c: "filter is_dispatch
      (trace (snd (run example_query_env ''u1'' [''q1'', ''q2''] ''other-repo'' [] start))) = [] \<and>
    fst (run example_query_env ''u1'' [''q1'', ''q2''] ''other-repo'' [] start) =
      Inr (ErrorPayload (''An unexpected error occurred: '' @ not_found_message ''other-repo'' ''u1''))"
    using missing nf by blast
  show ?thesis using tr ev nf a b c by blast
qed

text \<open>
  C9. Every raw match returned by the vector index becomes one query result, in order.
  In it \<open>start_line\<close>, \<open>end_line\<close> and \<open>similarity\<close> are \<open>0\<close> when the raw match has no
  such key, and are never \<open>None\<close>; \<open>docstring\<close> and \<open>file_path\<close> are what the raw match
  holds under these keys, and \<open>None\<close> when it holds nothing.
\<close>

theorem C9_query_result_defaults:
  assumes "out_query_vector_index env i (req_project_id rq) (req_query rq) (req_node_ids rq) =
    Inr results"
  shows "fst (process_query env i rq s) = Inr (map to_query_response results) \<and>
    (\<forall>result \<in> set results.
       (map_of result ''start_line'' = None \<longrightarrow> start_line (to_query_response result) = VInt 0) \<and>
       (map_of result ''end_line'' = None \<longrightarrow> end_line (to_query_response result) = VInt 0) \<and>
       (map_of result ''similarity'' = None \<longrightarrow> similarity (to_query_response result) = VInt 0) \<and>
       start_line (to_query_response result) \<noteq> VNone \<and>
       end_line (to_query_response result) \<noteq> VNone \<and>
       similarity (to_query_response result) \<noteq> VNone \<and>
       docstring (to_query_response result) =
         (case map_of result ''docstring'' of None \<Rightarrow> VNone | Some v \<Rightarrow> v) \<and>
       file_path (to_query_response result) =
         (case map_of result ''file_path'' of None \<Rightarrow> VNone | Some v \<Rightarrow> v))"
proof -
  have res: "fst (process_query env i rq s) = Inr (map to_query_response results)"
    using assms by (simp add: process_query_fst)
  have never_none: "py_or v (VInt 0) \<noteq> VNone" for v
    by (cases v) (simp_all add: py_or_def)
  have missing: "map_of result k = None \<Longrightarrow> py_or (py_get result k) (VInt 0) = VInt 0"
    for result :: raw_match and k
    by (simp add: py_get_def py_or_def)
  show ?thesis
    using res never_none missing by (simp add: to_query_response_def py_get_def)
qed

theorem C9_query_result_defaults_witness:
  "out_query_vector_index example_query_env 0 ''P1'' ''q1'' [] =
     Inr [[(''node_id'', VStr ''n1''), (''docstring'', VStr []), (''similarity'', VFloat (1 / 2))]] \<and>
   fst (process_query example_query_env 0
     \<lparr>req_node_ids = [], req_project_id = ''P1'', req_query = ''q1''\<rparr> start) =
     Inr [\<lparr>node_id = VStr ''n1'', docstring = VStr [], file_path = VNone,
           start_line = VInt 0, end_line = VInt 0, similarity = VFloat (1 / 2)\<rparr>]"
  using C9_query_result_defaults [of example_query_env 0
    "\<lparr>req_node_ids = [], req_project_id = ''P1'', req_query = ''q1''\<rparr>"
    "[[(''node_id'', VStr ''n1''), (''docstring'', VStr []), (''similarity'', VFloat (1 / 2))]]"
    start]
  by (simp add: example_query_env_def to_query_response_def py_get_def py_or_def)

end
